theory Spec2Isabelle
  imports Main "HOL-Library.Word"
begin

section \<open>The SIF loader (pkg/sif/load.go)\<close>

text \<open>
  Go byte slices, byte arrays and strings are lists of 8-bit characters: a \<^typ>\<open>char\<close>
  of HOL is exactly one byte, and Go compares strings byte by byte.
\<close>

type_synonym bytes = "char list"

subsection \<open>Errors and panics\<close>

text \<open>
  The errors that \<^verbatim>\<open>bytes.Reader\<close> and \<^verbatim>\<open>io.ReadFull\<close> report, and one constructor for
  each \<^verbatim>\<open>fmt.Errorf\<close> site of load.go.
\<close>

datatype io_error = EOF | ErrUnexpectedEOF | NegativePosition

datatype error =
    ReadHeaderError io_error
  | SeekError io_error
  | ReadDescrError io_error
  | GoarchNotSupported string
  | InvalidMagic bytes
  | InvalidVersion bytes
  | InvalidArch bytes string
  | StatError
  | TooBigError
  | MmapError
  | MunmapError
  | OpenRdonlyError
  | OpenRdwrError
  | InvalidFpError
  | CloseError

text \<open>
  A Go function either returns its results or panics. The two run-time panics that the
  loader can reach are a method call through a nil \<^verbatim>\<open>*bytes.Reader\<close> and \<^verbatim>\<open>make\<close> with a
  length that is negative or too large.
\<close>

datatype panic = NilDereference | MakesliceLenOutOfRange

datatype 'a outcome = Return 'a | Panic panic

subsection \<open>bytes.Reader\<close>

text \<open>The fields \<^verbatim>\<open>s\<close> (the data) and \<^verbatim>\<open>i\<close> (the read position) of \<^verbatim>\<open>bytes.Reader\<close>.\<close>

record bytes_Reader =
  r_s :: bytes
  r_i :: nat

definition NewReader :: "bytes \<Rightarrow> bytes_Reader" where
  "NewReader b = \<lparr>r_s = b, r_i = 0\<rparr>"

text \<open>
  \<^verbatim>\<open>Seek(offset, 0)\<close>: the only whence that load.go passes is 0 (from the start). A
  negative position is an error; a position beyond the end is accepted.
\<close>

definition Seek :: "bytes_Reader \<Rightarrow> int \<Rightarrow> io_error + bytes_Reader" where
  "Seek r offset =
     (if offset < 0 then Inl NegativePosition else Inr (r\<lparr>r_i := nat offset\<rparr>))"

text \<open>
  \<^verbatim>\<open>io.ReadFull\<close> on a \<^verbatim>\<open>bytes.Reader\<close> for a buffer of \<open>n\<close> bytes, as \<^verbatim>\<open>binary.Read\<close>
  calls it: nothing is read for an empty buffer; at the end of the data the error is
  \<^verbatim>\<open>io.EOF\<close>; a short read consumes what is left and reports \<^verbatim>\<open>io.ErrUnexpectedEOF\<close>.
\<close>

definition ReadFull :: "bytes_Reader \<Rightarrow> nat \<Rightarrow> bytes_Reader \<times> (io_error + bytes)" where
  "ReadFull r n =
     (let avail = drop (r_i r) (r_s r) in
      if n = 0 then (r, Inr [])
      else if avail = [] then (r, Inl EOF)
      else if length avail < n then (r\<lparr>r_i := length (r_s r)\<rparr>, Inl ErrUnexpectedEOF)
      else (r\<lparr>r_i := r_i r + n\<rparr>, Inr (take n avail)))"

subsection \<open>Header, FileImage and the declarations of sif.go\<close>

text \<open>
  Modelled from the spec: the \<^verbatim>\<open>Header\<close> struct is declared in sif.go, which is not among
  the sources. The fields are those of sections 3 and 6 of the specification, under the
  names load.go uses for the ones it reads (\<^verbatim>\<open>Magic\<close>, \<^verbatim>\<open>Version\<close>, \<^verbatim>\<open>Arch\<close>, \<^verbatim>\<open>Descroff\<close>,
  \<^verbatim>\<open>Dtotal\<close>). The 8-byte integers are \<^verbatim>\<open>int64\<close>: 64-bit words read with \<^const>\<open>sint\<close>.
\<close>

record Header =
  Magic :: bytes
  Version :: bytes
  Arch :: bytes
  ID :: bytes
  Ctime :: "64 word"
  Mtime :: "64 word"
  Descroff :: "64 word"
  Descrlen :: "64 word"
  Dinuse :: "64 word"
  Dtotal :: "64 word"

text \<open>
  A byte slice that \<^verbatim>\<open>syscall.Mmap\<close> returned: the base address of the mapping and the
  mapped bytes. The nil slice has no bytes.
\<close>

record mslice =
  base :: nat
  mdata :: bytes

definition nil_slice :: mslice where
  "nil_slice = \<lparr>base = 0, mdata = []\<rparr>"

text \<open>
  The fields of \<^verbatim>\<open>FileImage\<close> that load.go uses. \<open>'d\<close> is the type of a decoded
  \<^verbatim>\<open>Descriptor\<close>. \<^verbatim>\<open>Fp\<close> and \<^verbatim>\<open>Reader\<close> are pointers, \<open>None\<close> when nil; a nil \<^verbatim>\<open>DescrArr\<close>
  is the empty list.
\<close>

record 'd FileImage =
  Header :: Header
  Fp :: "nat option"
  Filesize :: int
  Filedata :: mslice
  Reader :: "bytes_Reader option"
  DescrArr :: "'d list"

text \<open>
  What load.go takes from outside the file: the constants, the \<^verbatim>\<open>GetSIFArch\<close> table and
  the wire layout of \<^verbatim>\<open>Header\<close> and \<^verbatim>\<open>Descriptor\<close> (all declared in sif.go), and the platform
  (\<^verbatim>\<open>runtime.GOARCH\<close>, the page size, the width of \<^verbatim>\<open>int\<close>, and the largest length for
  which \<^verbatim>\<open>make([]Descriptor, n)\<close> does not panic). They are parameters of the model.
\<close>

record 'd env =
  HdrMagic :: string
  HdrVersion :: string
  HdrArchUnknown :: string
  HdrArch386 :: string
  HdrArchAMD64 :: string
  HdrMagicLen :: nat
  HdrVersionLen :: nat
  HdrArchLen :: nat
  GetSIFArch :: "string \<Rightarrow> string"
  GOARCH :: string
  header_size :: nat
  decode_header :: "bytes \<Rightarrow> Header"
  descr_size :: nat
  decode_descr :: "bytes \<Rightarrow> 'd"
  max_descrs :: nat
  pagesize :: nat
  int_bits :: nat

text \<open>The zero value of \<^verbatim>\<open>FileImage\<close>, with which the named result \<^verbatim>\<open>fimg\<close> starts.\<close>

definition zero_Header :: "'d env \<Rightarrow> Header" where
  "zero_Header E =
     \<lparr>Magic = replicate (HdrMagicLen E) (CHR 0x00),
      Version = replicate (HdrVersionLen E) (CHR 0x00),
      Arch = replicate (HdrArchLen E) (CHR 0x00),
      ID = [], Ctime = 0, Mtime = 0, Descroff = 0, Descrlen = 0, Dinuse = 0, Dtotal = 0\<rparr>"

definition zero_FileImage :: "'d env \<Rightarrow> 'd FileImage" where
  "zero_FileImage E =
     \<lparr>Header = zero_Header E, Fp = None, Filesize = 0, Filedata = nil_slice,
      Reader = None, DescrArr = []\<rparr>"

subsection \<open>readHeader, readDescriptors, isValidSif\<close>

definition readHeader :: "'d env \<Rightarrow> 'd FileImage \<Rightarrow> ('d FileImage \<times> error option) outcome" where
  "readHeader E fimg =
     (case Reader fimg of
        None \<Rightarrow> Panic NilDereference
      | Some r \<Rightarrow>
          (case ReadFull r (header_size E) of
             (r', Inl e) \<Rightarrow> Return (fimg\<lparr>Reader := Some r'\<rparr>, Some (ReadHeaderError e))
           | (r', Inr bs) \<Rightarrow>
               Return (fimg\<lparr>Reader := Some r', Header := decode_header E bs\<rparr>, None)))"

text \<open>The records of the descriptor array: \<open>n\<close> consecutive pieces of \<open>sz\<close> bytes.\<close>

fun chunks :: "nat \<Rightarrow> nat \<Rightarrow> bytes \<Rightarrow> bytes list" where
  "chunks sz 0 bs = []"
| "chunks sz (Suc n) bs = take sz bs # chunks sz n (drop sz bs)"

text \<open>
  \<^verbatim>\<open>make([]Descriptor, fimg.Header.Dtotal)\<close> panics when the length is negative or larger
  than the platform allows. When \<^verbatim>\<open>binary.Read\<close> fails, \<^verbatim>\<open>DescrArr\<close> is reset to nil.
\<close>

definition readDescriptors ::
  "'d env \<Rightarrow> 'd FileImage \<Rightarrow> ('d FileImage \<times> error option) outcome" where
  "readDescriptors E fimg =
     (case Reader fimg of
        None \<Rightarrow> Panic NilDereference
      | Some r \<Rightarrow>
          (case Seek r (sint (Descroff (Header fimg))) of
             Inl e \<Rightarrow> Return (fimg, Some (SeekError e))
           | Inr r1 \<Rightarrow>
               (let n = sint (Dtotal (Header fimg)) in
                if n < 0 \<or> int (max_descrs E) < n then Panic MakesliceLenOutOfRange
                else
                  (case ReadFull r1 (descr_size E * nat n) of
                     (r2, Inl e) \<Rightarrow>
                       Return (fimg\<lparr>Reader := Some r2, DescrArr := []\<rparr>, Some (ReadDescrError e))
                   | (r2, Inr bs) \<Rightarrow>
                       Return (fimg\<lparr>Reader := Some r2,
                                    DescrArr := map (decode_descr E) (chunks (descr_size E) (nat n) bs)\<rparr>,
                               None)))))"

text \<open>
  \<^verbatim>\<open>isValidSif\<close>: \<open>None\<close> is the nil error. \<^verbatim>\<open>Magic[:HdrMagicLen-1]\<close> is the array without
  its last byte.
\<close>

definition isValidSif :: "'d env \<Rightarrow> 'd FileImage \<Rightarrow> bool \<Rightarrow> error option" where
  "isValidSif E fimg runnable =
     (let arch = GetSIFArch E (GOARCH E) in
      if arch = HdrArchUnknown E then Some (GoarchNotSupported (GOARCH E))
      else if take (HdrMagicLen E - 1) (Magic (Header fimg)) \<noteq> HdrMagic E
        then Some (InvalidMagic (Magic (Header fimg)))
      else if take (HdrVersionLen E - 1) (Version (Header fimg)) \<noteq> HdrVersion E
        then Some (InvalidVersion (Version (Header fimg)))
      else if runnable then
        (if take (HdrArchLen E - 1) (Arch (Header fimg)) = HdrArchAMD64 E
              \<and> (arch \<noteq> HdrArch386 E \<and> arch \<noteq> HdrArchAMD64 E)
           then Some (InvalidArch (Arch (Header fimg)) arch)
         else if take (HdrArchLen E - 1) (Arch (Header fimg)) \<noteq> arch
           then Some (InvalidArch (Arch (Header fimg)) arch)
         else None)
      else None)"

subsection \<open>The operating system: open files and memory mappings\<close>

text \<open>
  The state that \<^verbatim>\<open>os.Open\<close>, \<^verbatim>\<open>Stat\<close>, \<^verbatim>\<open>Close\<close>, \<^verbatim>\<open>syscall.Mmap\<close> and \<^verbatim>\<open>syscall.Munmap\<close>
  work on: the files by path, the open \<^verbatim>\<open>*os.File\<close> handles, and the live mappings (base
  address to length, the \<^verbatim>\<open>active\<close> table of Go's \<^verbatim>\<open>mmapper\<close>). Handles and addresses are
  handed out from counters.
\<close>

record fs_file =
  contents :: bytes
  writable :: bool

record os_file =
  f_data :: bytes
  f_rdonly :: bool

record os_state =
  fs :: "string \<rightharpoonup> fs_file"
  fdtab :: "nat \<rightharpoonup> os_file"
  next_fd :: nat
  active :: "nat \<rightharpoonup> nat"
  next_addr :: nat

text \<open>\<^verbatim>\<open>os.Open\<close> (read-only) and \<^verbatim>\<open>os.OpenFile(name, os.O_RDWR, 0644)\<close>.\<close>

definition os_Open :: "os_state \<Rightarrow> string \<Rightarrow> bool \<Rightarrow> (os_state \<times> nat) option" where
  "os_Open s filename rdonly =
     (case fs s filename of
        None \<Rightarrow> None
      | Some f \<Rightarrow>
          if \<not> rdonly \<and> \<not> writable f then None
          else Some (s\<lparr>fdtab := (fdtab s)(next_fd s \<mapsto> \<lparr>f_data = contents f, f_rdonly = rdonly\<rparr>),
                       next_fd := Suc (next_fd s)\<rparr>,
                     next_fd s))"

text \<open>\<^verbatim>\<open>Fp.Stat()\<close> followed by \<^verbatim>\<open>info.Size()\<close>: fails on a nil or closed file.\<close>

definition Stat_Size :: "os_state \<Rightarrow> nat option \<Rightarrow> int option" where
  "Stat_Size s fp =
     (case fp of
        None \<Rightarrow> None
      | Some fd \<Rightarrow> (case fdtab s fd of None \<Rightarrow> None | Some f \<Rightarrow> Some (int (length (f_data f)))))"

text \<open>\<^verbatim>\<open>Fp.Close()\<close>: an error on a file that is already closed.\<close>

definition Close :: "os_state \<Rightarrow> nat \<Rightarrow> os_state option" where
  "Close s fd =
     (case fdtab s fd of None \<Rightarrow> None | Some f \<Rightarrow> Some (s\<lparr>fdtab := (fdtab s)(fd := None)\<rparr>))"

text \<open>
  \<^verbatim>\<open>syscall.Mmap(fd, 0, length, prot, flags)\<close>: \<^verbatim>\<open>EINVAL\<close> for a length that is not
  positive, an error for a file that is not open, or for a shared writable mapping of a
  file opened read-only. The mapping holds the file's bytes, zero-filled up to its length.
\<close>

definition Mmap :: "os_state \<Rightarrow> nat option \<Rightarrow> int \<Rightarrow> bool \<Rightarrow> (os_state \<times> mslice) option" where
  "Mmap s fp len shared_write =
     (if len \<le> 0 then None
      else
        (case fp of
           None \<Rightarrow> None
         | Some fd \<Rightarrow>
             (case fdtab s fd of
                None \<Rightarrow> None
              | Some f \<Rightarrow>
                  if shared_write \<and> f_rdonly f then None
                  else
                    Some (s\<lparr>active := (active s)(next_addr s \<mapsto> nat len),
                            next_addr := next_addr s + nat len\<rparr>,
                          \<lparr>base = next_addr s,
                           mdata = take (nat len)
                             (f_data f @ replicate (nat len - length (f_data f)) (CHR 0x00))\<rparr>))))"

text \<open>
  \<^verbatim>\<open>syscall.Munmap(data)\<close>: Go's \<^verbatim>\<open>mmapper\<close> answers \<^verbatim>\<open>EINVAL\<close> for an empty slice and for
  a slice that is not a live mapping of its own table; otherwise the mapping is removed.
\<close>

definition Munmap :: "os_state \<Rightarrow> mslice \<Rightarrow> os_state option" where
  "Munmap s d =
     (if mdata d = [] \<or> active s (base d) \<noteq> Some (length (mdata d)) then None
      else Some (s\<lparr>active := (active s)(base d := None)\<rparr>))"

text \<open>A slice is mapped when it is a live mapping of the state.\<close>

definition mapped :: "os_state \<Rightarrow> mslice \<Rightarrow> bool" where
  "mapped s d \<longleftrightarrow> mdata d \<noteq> [] \<and> active s (base d) = Some (length (mdata d))"

subsection \<open>mapFile and unmapFile\<close>

text \<open>
  Modelled from the spec: \<^verbatim>\<open>nextAligned\<close> is defined elsewhere in the package; section
  4.1 says that the file is mapped "rounded up to the host page size".
\<close>

definition nextAligned :: "int \<Rightarrow> nat \<Rightarrow> int" where
  "nextAligned offset align =
     (if offset mod int align \<noteq> 0 then (offset div int align) * int align + int align
      else offset)"

text \<open>The conversion \<^verbatim>\<open>int(size)\<close> keeps the low \<^verbatim>\<open>int_bits\<close> bits, read as a signed number.\<close>

definition to_int :: "'d env \<Rightarrow> int \<Rightarrow> int" where
  "to_int E x = signed_take_bit (int_bits E - 1) x"

definition mapFile ::
  "'d env \<Rightarrow> os_state \<Rightarrow> 'd FileImage \<Rightarrow> bool \<Rightarrow> os_state \<times> 'd FileImage \<times> error option" where
  "mapFile E s fimg rdonly =
     (case Stat_Size s (Fp fimg) of
        None \<Rightarrow> (s, fimg, Some StatError)
      | Some fsize \<Rightarrow>
          (let fimg1 = fimg\<lparr>Filesize := fsize\<rparr>;
               size = nextAligned fsize (pagesize E)
           in if to_int E size < fsize then (s, fimg1, Some TooBigError)
              else
                (case Mmap s (Fp fimg) (to_int E size) (\<not> rdonly) of
                   None \<Rightarrow> (s, fimg1\<lparr>Filedata := nil_slice\<rparr>, Some MmapError)
                 | Some (s', d) \<Rightarrow>
                     (s', fimg1\<lparr>Filedata := d, Reader := Some (NewReader (mdata d))\<rparr>, None))))"

definition unmapFile :: "os_state \<Rightarrow> 'd FileImage \<Rightarrow> os_state \<times> error option" where
  "unmapFile s fimg =
     (case Munmap s (Filedata fimg) of
        None \<Rightarrow> (s, Some MunmapError)
      | Some s' \<Rightarrow> (s', None))"

subsection \<open>LoadContainer, LoadContainerFp, LoadContainerReader, UnloadContainer\<close>

text \<open>
  The three steps after the mapping, as both loaders write them: each failure returns the
  image built so far together with the error.
\<close>

definition load_mapped ::
  "'d env \<Rightarrow> os_state \<Rightarrow> 'd FileImage \<Rightarrow> (os_state \<times> 'd FileImage \<times> error option) outcome" where
  "load_mapped E s fimg =
     (case readHeader E fimg of
        Panic p \<Rightarrow> Panic p
      | Return (fimg1, Some e) \<Rightarrow> Return (s, fimg1, Some e)
      | Return (fimg1, None) \<Rightarrow>
          (case isValidSif E fimg1 True of
             Some e \<Rightarrow> Return (s, fimg1, Some e)
           | None \<Rightarrow>
               (case readDescriptors E fimg1 of
                  Panic p \<Rightarrow> Panic p
                | Return (fimg2, err) \<Rightarrow> Return (s, fimg2, err))))"

definition LoadContainer ::
  "'d env \<Rightarrow> os_state \<Rightarrow> string \<Rightarrow> bool \<Rightarrow> (os_state \<times> 'd FileImage \<times> error option) outcome" where
  "LoadContainer E s filename rdonly =
     (case os_Open s filename rdonly of
        None \<Rightarrow>
          Return (s, zero_FileImage E, Some (if rdonly then OpenRdonlyError else OpenRdwrError))
      | Some (s0, fd) \<Rightarrow>
          (case mapFile E s0 ((zero_FileImage E)\<lparr>Fp := Some fd\<rparr>) rdonly of
             (s1, fimg1, Some e) \<Rightarrow> Return (s1, fimg1, Some e)
           | (s1, fimg1, None) \<Rightarrow> load_mapped E s1 fimg1))"

definition LoadContainerFp ::
  "'d env \<Rightarrow> os_state \<Rightarrow> nat option \<Rightarrow> bool \<Rightarrow> (os_state \<times> 'd FileImage \<times> error option) outcome" where
  "LoadContainerFp E s fp rdonly =
     (case fp of
        None \<Rightarrow> Return (s, zero_FileImage E, Some InvalidFpError)
      | Some fd \<Rightarrow>
          (case mapFile E s ((zero_FileImage E)\<lparr>Fp := Some fd\<rparr>) rdonly of
             (s1, fimg1, Some e) \<Rightarrow> Return (s1, fimg1, Some e)
           | (s1, fimg1, None) \<Rightarrow> load_mapped E s1 fimg1))"

text \<open>The error of \<^verbatim>\<open>readDescriptors\<close> is dropped: the image is returned with a nil error.\<close>

definition LoadContainerReader ::
  "'d env \<Rightarrow> bytes_Reader \<Rightarrow> ('d FileImage \<times> error option) outcome" where
  "LoadContainerReader E b =
     (case readHeader E ((zero_FileImage E)\<lparr>Reader := Some b\<rparr>) of
        Panic p \<Rightarrow> Panic p
      | Return (fimg1, Some e) \<Rightarrow> Return (fimg1, Some e)
      | Return (fimg1, None) \<Rightarrow>
          (case isValidSif E fimg1 False of
             Some e \<Rightarrow> Return (fimg1, Some e)
           | None \<Rightarrow>
               (case readDescriptors E fimg1 of
                  Panic p \<Rightarrow> Panic p
                | Return (fimg2, err) \<Rightarrow> Return (fimg2, None))))"

definition UnloadContainer :: "os_state \<Rightarrow> 'd FileImage \<Rightarrow> os_state \<times> error option" where
  "UnloadContainer s fimg =
     (case Fp fimg of
        None \<Rightarrow> (s, None)
      | Some fd \<Rightarrow>
          (case unmapFile s fimg of
             (s1, Some e) \<Rightarrow> (s1, Some e)
           | (s1, None) \<Rightarrow>
               (case Close s1 fd of
                  None \<Rightarrow> (s1, Some CloseError)
                | Some s2 \<Rightarrow> (s2, None))))"

section \<open>The integrity engine (pkg/integrity)\<close>

text \<open>
  Modelled from the spec: \<^verbatim>\<open>signAndEncodeJSON\<close> and \<^verbatim>\<open>verifyAndDecodeJSON\<close> are defined in
  clearsign.go, which is not among the sources; only their test, clearsign_test.go, is.
  The definitions below follow the sign and verify protocols of section 4.3 of the
  specification. The signing primitive is the external capability of section 9 and is
  modelled symbolically: a digest is the hash algorithm together with the bytes hashed, a
  signature value is the signing key together with the digest signed, and a key is
  identified by its key id.
\<close>

datatype hash = SHA1 | SHA224 | SHA256 | SHA384 | SHA512

datatype digest = Digest hash bytes

datatype sigval = Signed nat digest

text \<open>
  The private key of the test (\<^verbatim>\<open>packet.PrivateKey\<close> with its \<^verbatim>\<open>Encrypted\<close> flag), the
  configuration (\<^verbatim>\<open>DefaultHash\<close> is \<open>None\<close> when the caller selects no algorithm), and an
  entity of the keyring (\<^verbatim>\<open>openpgp.Entity\<close>), which stands for its public key.
\<close>

record PrivateKey =
  KeyId :: nat
  Encrypted :: bool

record Config =
  DefaultHash :: "hash option"

record Entity =
  PrimaryKey :: nat

text \<open>
  The signature packet carries the hash algorithm and the issuer key id with the signature
  value. The envelope is the canonical payload with the detached signature; the armoured
  encoding is left to the primitive, so the input of verification is the envelope that the
  bytes parse to, together with the bytes that trail it.
\<close>

record Signature =
  Hash :: hash
  IssuerKeyId :: nat
  Value :: sigval

record envelope =
  Plaintext :: bytes
  ArmoredSignature :: Signature

record clearsigned =
  block :: envelope
  trailing :: bytes

text \<open>The error taxonomy of section 7, as far as signing and verifying raise it.\<close>

datatype integrity_error =
    KeyError
  | UnknownIssuerError
  | SignatureError
  | TrailingDataError
  | DecodeError

text \<open>
  What the engine takes from outside: the canonical serialization of the protected value
  with its decoder, and the default hash algorithm of the library.
\<close>

record 'v lib =
  encode :: "'v \<Rightarrow> bytes"
  decode :: "bytes \<Rightarrow> 'v option"
  library_default :: hash

text \<open>
  Modelled from the spec: \<^verbatim>\<open>signAndEncodeJSON\<close> (clearsign.go, not among the sources), after
  the sign protocol of section 4.3: serialize, digest with the selected algorithm (or the
  library default), sign the digest, assemble the envelope; a key that is still encrypted
  is a \<open>KeyError\<close>. The result is what was written: the envelope, and no byte after it.
\<close>

definition signAndEncodeJSON ::
  "'v lib \<Rightarrow> 'v \<Rightarrow> PrivateKey \<Rightarrow> Config \<Rightarrow> integrity_error + clearsigned" where
  "signAndEncodeJSON L v k config =
     (if Encrypted k then Inl KeyError
      else
        (let payload = encode L v;
             h = (case DefaultHash config of None \<Rightarrow> library_default L | Some h \<Rightarrow> h)
         in Inr \<lparr>block =
                   \<lparr>Plaintext = payload,
                    ArmoredSignature =
                      \<lparr>Hash = h, IssuerKeyId = KeyId k,
                       Value = Signed (KeyId k) (Digest h payload)\<rparr>\<rparr>,
                 trailing = []\<rparr>))"

text \<open>
  Modelled from the spec: \<^verbatim>\<open>verifyAndDecodeJSON\<close> (clearsign.go, not among the sources),
  after the verify protocol of section 4.3: the digest is recomputed with the algorithm of the packet; the issuer key
  id is resolved against the keyring in order (\<open>UnknownIssuerError\<close> without a match); the
  signature is checked against the matched key (\<open>SignatureError\<close> on a mismatch); success
  needs zero trailing bytes (\<open>TrailingDataError\<close>) and a payload that decodes. The errors
  of issuer and signature come first: section 8 requires \<open>UnknownIssuerError\<close> for an empty
  keyring whatever the input is.
\<close>

definition verifyAndDecodeJSON ::
  "'v lib \<Rightarrow> clearsigned \<Rightarrow> Entity list \<Rightarrow> integrity_error + (Entity \<times> 'v \<times> bytes)" where
  "verifyAndDecodeJSON L data el =
     (let sg = ArmoredSignature (block data);
          d = Digest (Hash sg) (Plaintext (block data))
      in case find (\<lambda>e. PrimaryKey e = IssuerKeyId sg) el of
           None \<Rightarrow> Inl UnknownIssuerError
         | Some e \<Rightarrow>
             if Value sg \<noteq> Signed (PrimaryKey e) d then Inl SignatureError
             else if trailing data \<noteq> [] then Inl TrailingDataError
             else
               (case decode L (Plaintext (block data)) of
                  None \<Rightarrow> Inl DecodeError
                | Some v \<Rightarrow> Inr (e, v, trailing data)))"

section \<open>Sample parameters and inputs\<close>

text \<open>
  An instance of the parameters, used where the model is evaluated on concrete inputs:
  the constants and the architecture table with sample values, a host given by its
  \<^verbatim>\<open>GOARCH\<close>, a little-endian header layout in the field order of section 6 of the
  specification (80 bytes), 16-byte descriptors kept as raw bytes, 4096-byte pages and a
  64-bit \<^verbatim>\<open>int\<close>.
\<close>

fun le_nat :: "bytes \<Rightarrow> nat" where
  "le_nat [] = 0"
| "le_nat (c # cs) = of_char c + 256 * le_nat cs"

definition le64 :: "bytes \<Rightarrow> 64 word" where
  "le64 bs = word_of_nat (le_nat bs)"

definition sample_decode_header :: "bytes \<Rightarrow> Header" where
  "sample_decode_header bs =
     \<lparr>Magic = take 10 bs,
      Version = take 3 (drop 10 bs),
      Arch = take 3 (drop 13 bs),
      ID = take 16 (drop 16 bs),
      Ctime = le64 (take 8 (drop 32 bs)),
      Mtime = le64 (take 8 (drop 40 bs)),
      Descroff = le64 (take 8 (drop 48 bs)),
      Descrlen = le64 (take 8 (drop 56 bs)),
      Dinuse = le64 (take 8 (drop 64 bs)),
      Dtotal = le64 (take 8 (drop 72 bs))\<rparr>"

definition sample_GetSIFArch :: "string \<Rightarrow> string" where
  "sample_GetSIFArch goarch =
     (if goarch = ''386'' then ''01'' else if goarch = ''amd64'' then ''02'' else ''00'')"

definition sample_env :: "string \<Rightarrow> bytes env" where
  "sample_env goarch =
     \<lparr>HdrMagic = ''SIF_MAGIC'', HdrVersion = ''01'', HdrArchUnknown = ''00'',
      HdrArch386 = ''01'', HdrArchAMD64 = ''02'',
      HdrMagicLen = 10, HdrVersionLen = 3, HdrArchLen = 3,
      GetSIFArch = sample_GetSIFArch, GOARCH = goarch,
      header_size = 80, decode_header = sample_decode_header,
      descr_size = 16, decode_descr = (\<lambda>bs. bs),
      max_descrs = 2 ^ 44, pagesize = 4096, int_bits = 64\<rparr>"

definition sample_Header :: "string \<Rightarrow> Header" where
  "sample_Header arch =
     \<lparr>Magic = ''SIF_MAGIC'' @ [CHR 0x00], Version = ''01'' @ [CHR 0x00],
      Arch = arch @ [CHR 0x00], ID = replicate 16 (CHR 0x00), Ctime = 0, Mtime = 0,
      Descroff = 80, Descrlen = 0, Dinuse = 0, Dtotal = 0\<rparr>"

definition sample_image :: "string \<Rightarrow> bytes \<Rightarrow> bytes \<Rightarrow> bytes" where
  "sample_image arch descroff dtotal =
     ''SIF_MAGIC'' @ [CHR 0x00] @ ''01'' @ [CHR 0x00] @ arch @ [CHR 0x00]
       @ replicate 32 (CHR 0x00) @ descroff @ replicate 16 (CHR 0x00) @ dtotal"

text \<open>A file system with one file, no open file and no mapping.\<close>

definition sample_os :: "bytes \<Rightarrow> os_state" where
  "sample_os file =
     \<lparr>fs = [''image.sif'' \<mapsto> \<lparr>contents = file, writable = True\<rparr>], fdtab = Map.empty,
      next_fd = 3, active = Map.empty, next_addr = 4096\<rparr>"

subsection \<open>Observations on outcomes\<close>

text \<open>The error component of what a loader returned.\<close>

definition error_of :: "('a \<times> error option) outcome \<Rightarrow> error option outcome" where
  "error_of out = (case out of Return (x, e) \<Rightarrow> Return e | Panic p \<Rightarrow> Panic p)"

text \<open>
  A load that returned an error while the slice in \<^verbatim>\<open>Filedata\<close> of the returned image is
  still a live mapping of the resulting state.
\<close>

definition returns_error_with_live_mapping ::
  "(os_state \<times> 'd FileImage \<times> error option) outcome \<Rightarrow> bool" where
  "returns_error_with_live_mapping out =
     (case out of
        Return (s, fimg, Some e) \<Rightarrow> mapped s (Filedata fimg)
      | Return (s, fimg, None) \<Rightarrow> False
      | Panic p \<Rightarrow> False)"

subsection \<open>The value of the test and the sample signer\<close>

text \<open>
  The value of the test, \<^verbatim>\<open>testType{One, Two}\<close>, with a serialization in the form the test's
  corrupter shows: \<^verbatim>\<open>{"One":1,"Two":2}\<close>.
\<close>

record testType =
  One :: int
  Two :: int

function show_nat :: "nat \<Rightarrow> string" where
  "show_nat n =
     (if n < 10 then [char_of (48 + n)] else show_nat (n div 10) @ [char_of (48 + n mod 10)])"
  by pat_completeness auto
termination
  by (relation "measure (\<lambda>n. n)") auto

declare show_nat.simps [simp del]

definition show_int :: "int \<Rightarrow> string" where
  "show_int i = (if i < 0 then CHR ''-'' # show_nat (nat (- i)) else show_nat (nat i))"

definition is_digit :: "char \<Rightarrow> bool" where
  "is_digit c \<longleftrightarrow> 48 \<le> (of_char c :: nat) \<and> (of_char c :: nat) \<le> 57"

definition parse_nat :: "string \<Rightarrow> nat option" where
  "parse_nat s =
     (if s \<noteq> [] \<and> list_all is_digit s
      then Some (foldl (\<lambda>a c. 10 * a + (of_char c - 48)) 0 s) else None)"

definition parse_int :: "string \<Rightarrow> int option" where
  "parse_int s =
     (case s of
        [] \<Rightarrow> None
      | c # cs \<Rightarrow>
          if c = CHR ''-'' then map_option (\<lambda>n. - int n) (parse_nat cs)
          else map_option int (parse_nat s))"

text \<open>Remove a prefix, or fail.\<close>

fun strip_prefix :: "string \<Rightarrow> string \<Rightarrow> string option" where
  "strip_prefix [] s = Some s"
| "strip_prefix (p # ps) [] = None"
| "strip_prefix (p # ps) (c # cs) = (if p = c then strip_prefix ps cs else None)"

definition is_num_char :: "char \<Rightarrow> bool" where
  "is_num_char c \<longleftrightarrow> c = CHR ''-'' \<or> is_digit c"

definition encode_testType :: "testType \<Rightarrow> bytes" where
  "encode_testType t =
     [CHR ''{'', CHR 0x22] @ ''One'' @ [CHR 0x22, CHR '':''] @ show_int (One t)
       @ [CHR '','', CHR 0x22] @ ''Two'' @ [CHR 0x22, CHR '':''] @ show_int (Two t) @ [CHR ''}'']"

definition decode_testType :: "bytes \<Rightarrow> testType option" where
  "decode_testType bs =
     (case strip_prefix ([CHR ''{'', CHR 0x22] @ ''One'' @ [CHR 0x22, CHR '':'']) bs of
        None \<Rightarrow> None
      | Some r1 \<Rightarrow>
          (case parse_int (takeWhile is_num_char r1) of
             None \<Rightarrow> None
           | Some a \<Rightarrow>
               (case strip_prefix ([CHR '','', CHR 0x22] @ ''Two'' @ [CHR 0x22, CHR '':''])
                       (dropWhile is_num_char r1) of
                  None \<Rightarrow> None
                | Some r2 \<Rightarrow>
                    (case parse_int (takeWhile is_num_char r2) of
                       None \<Rightarrow> None
                     | Some b \<Rightarrow>
                         if dropWhile is_num_char r2 = [CHR ''}'']
                         then Some \<lparr>One = a, Two = b\<rparr> else None))))"

definition sample_lib :: "testType lib" where
  "sample_lib = \<lparr>encode = encode_testType, decode = decode_testType, library_default = SHA256\<rparr>"


text \<open>The key of the sample signer, the same key still encrypted, and its entity.\<close>

definition sample_key :: PrivateKey where
  "sample_key = \<lparr>KeyId = 7, Encrypted = False\<rparr>"

definition sample_encrypted_key :: PrivateKey where
  "sample_encrypted_key = sample_key\<lparr>Encrypted := True\<rparr>"

definition sample_entity :: Entity where
  "sample_entity = \<lparr>PrimaryKey = 7\<rparr>"

text \<open>The envelope of \<^verbatim>\<open>testType{1, 2}\<close> signed by the sample key under the default hash.\<close>

definition sample_envelope :: envelope where
  "sample_envelope =
     \<lparr>Plaintext = encode_testType \<lparr>One = 1, Two = 2\<rparr>,
      ArmoredSignature =
        \<lparr>Hash = SHA256, IssuerKeyId = 7,
         Value = Signed 7 (Digest SHA256 (encode_testType \<lparr>One = 1, Two = 2\<rparr>))\<rparr>\<rparr>"

section \<open>Properties of the loader\<close>

text \<open>
  Runnable validation succeeds exactly when the host is supported, magic and version match,
  and the architecture tag of the image is the tag of the host: the first test on the
  architecture is subsumed by the second.
\<close>

lemma isValidSif_runnable_None:
  "isValidSif E fimg True = None \<longleftrightarrow>
     GetSIFArch E (GOARCH E) \<noteq> HdrArchUnknown E
     \<and> take (HdrMagicLen E - 1) (Magic (Header fimg)) = HdrMagic E
     \<and> take (HdrVersionLen E - 1) (Version (Header fimg)) = HdrVersion E
     \<and> take (HdrArchLen E - 1) (Arch (Header fimg)) = GetSIFArch E (GOARCH E)"
  by (auto simp: isValidSif_def Let_def)

text \<open>
  Claim C1 (the legacy exception of runnable validation). On an amd64 host, an image with
  valid magic and version that is tagged for 386 is rejected by \<^const>\<open>isValidSif\<close> with
  \<open>runnable = True\<close>: the comparison of the tag with the host's tag fails, although the
  comment in the source says "Assume amd64 runs i386 code".
\<close>

theorem C1_amd64_host_rejects_386_image:
  "isValidSif (sample_env ''amd64'')
     ((zero_FileImage (sample_env ''amd64''))\<lparr>Header := sample_Header ''01''\<rparr>) True
   = Some (InvalidArch (''01'' @ [CHR 0x00]) ''02'')"
  by (simp add: isValidSif_def sample_env_def sample_Header_def sample_GetSIFArch_def
      zero_FileImage_def)

text \<open>
  Claim C10. When \<^verbatim>\<open>GetSIFArch\<close> gives the unknown tag for the host, \<^const>\<open>isValidSif\<close>
  returns the "GOARCH not supported" error for every image and both values of
  \<open>runnable\<close>, and \<^const>\<open>LoadContainerReader\<close> returns an error for every reader.
\<close>

theorem C10_unsupported_host:
  "GetSIFArch E (GOARCH E) = HdrArchUnknown E \<Longrightarrow>
     isValidSif E fimg runnable = Some (GoarchNotSupported (GOARCH E))
     \<and> (\<exists>fimg' e. LoadContainerReader E b = Return (fimg', Some e))"
  by (auto simp: isValidSif_def LoadContainerReader_def readHeader_def Let_def
      split: prod.splits sum.splits)

theorem C10_unsupported_host_witness:
  "GetSIFArch (sample_env ''riscv64'') (GOARCH (sample_env ''riscv64''))
     = HdrArchUnknown (sample_env ''riscv64'')
   \<and> isValidSif (sample_env ''riscv64'')
        ((zero_FileImage (sample_env ''riscv64''))\<lparr>Header := sample_Header ''02''\<rparr>) False
      = Some (GoarchNotSupported ''riscv64'')
   \<and> (\<exists>fimg' e. LoadContainerReader (sample_env ''riscv64'')
          (NewReader (sample_image ''02'' (replicate 8 (CHR 0x00)) (replicate 8 (CHR 0x00))))
        = Return (fimg', Some e))"
proof -
  have h: "GetSIFArch (sample_env ''riscv64'') (GOARCH (sample_env ''riscv64''))
     = HdrArchUnknown (sample_env ''riscv64'')"
    by (simp add: sample_env_def sample_GetSIFArch_def)
  show ?thesis
    using h C10_unsupported_host [OF h,
        of "(zero_FileImage (sample_env ''riscv64''))\<lparr>Header := sample_Header ''02''\<rparr>" False
           "NewReader (sample_image ''02'' (replicate 8 (CHR 0x00)) (replicate 8 (CHR 0x00)))"]
    by (simp add: sample_env_def)
qed

text \<open>Evaluation of the sample layout.\<close>

lemma le_nat_zeros: "le_nat (replicate n (CHR 0x00)) = 0"
  by (induction n) simp_all

lemma sample_decode_image:
  "length arch = 2 \<Longrightarrow> length off = 8 \<Longrightarrow> length tot = 8 \<Longrightarrow>
   sample_decode_header (sample_image arch off tot) =
     \<lparr>Magic = ''SIF_MAGIC'' @ [CHR 0x00], Version = ''01'' @ [CHR 0x00],
      Arch = arch @ [CHR 0x00], ID = replicate 16 (CHR 0x00), Ctime = 0, Mtime = 0,
      Descroff = le64 off, Descrlen = 0, Dinuse = 0, Dtotal = le64 tot\<rparr>"
  by (simp add: sample_decode_header_def sample_image_def le64_def le_nat_zeros)

lemma ReadFull_sample_image:
  "length arch = 2 \<Longrightarrow> length off = 8 \<Longrightarrow> length tot = 8 \<Longrightarrow>
   ReadFull (NewReader (sample_image arch off tot @ rest)) 80 =
     (\<lparr>r_s = sample_image arch off tot @ rest, r_i = 80\<rparr>, Inr (sample_image arch off tot))"
  by (simp add: ReadFull_def NewReader_def sample_image_def)

text \<open>
  Validation that is not runnable succeeds exactly when the host is supported and magic and
  version match.
\<close>

lemma isValidSif_not_runnable_None:
  "isValidSif E fimg False = None \<longleftrightarrow>
     GetSIFArch E (GOARCH E) \<noteq> HdrArchUnknown E
     \<and> take (HdrMagicLen E - 1) (Magic (Header fimg)) = HdrMagic E
     \<and> take (HdrVersionLen E - 1) (Version (Header fimg)) = HdrVersion E"
  by (auto simp: isValidSif_def Let_def)

text \<open>
  With a descriptor count that \<^verbatim>\<open>make\<close> accepts, \<^const>\<open>readDescriptors\<close> returns and keeps
  the header; \<^const>\<open>LoadContainerReader\<close> then returns the image with a nil error.
\<close>

lemma readDescriptors_no_panic:
  assumes "Reader fimg = Some r" "0 \<le> sint (Dtotal (Header fimg))"
    "sint (Dtotal (Header fimg)) \<le> int (max_descrs E)"
  shows "\<exists>fimg' err. readDescriptors E fimg = Return (fimg', err) \<and> Header fimg' = Header fimg"
  using assms
  by (auto simp: readDescriptors_def Let_def split: sum.splits prod.splits)

lemma LoadContainerReader_valid:
  assumes "ReadFull b (header_size E) = (b', Inr bs)"
    and "GetSIFArch E (GOARCH E) \<noteq> HdrArchUnknown E"
    and "take (HdrMagicLen E - 1) (Magic (decode_header E bs)) = HdrMagic E"
    and "take (HdrVersionLen E - 1) (Version (decode_header E bs)) = HdrVersion E"
    and "0 \<le> sint (Dtotal (decode_header E bs))"
    and "sint (Dtotal (decode_header E bs)) \<le> int (max_descrs E)"
  shows "\<exists>fimg'. LoadContainerReader E b = Return (fimg', None)
            \<and> Header fimg' = decode_header E bs"
proof -
  let ?f1 = "(zero_FileImage E)\<lparr>Reader := Some b', Header := decode_header E bs\<rparr>"
  have rh: "readHeader E ((zero_FileImage E)\<lparr>Reader := Some b\<rparr>) = Return (?f1, None)"
    using assms(1) by (simp add: readHeader_def)
  have v: "isValidSif E ?f1 False = None"
    using assms(2-4) by (simp add: isValidSif_not_runnable_None)
  obtain f2 err where rd: "readDescriptors E ?f1 = Return (f2, err)"
    and h: "Header f2 = Header ?f1"
    using readDescriptors_no_panic [of ?f1 b' E] assms(5,6) by auto
  show ?thesis
    using rh v rd h by (simp add: LoadContainerReader_def)
qed

text \<open>
  Claim C6, as stated, fails on a host that SIF does not support: the image has valid magic
  and version and a tag that differs from the host's, yet validation that is not runnable
  returns an error and \<^const>\<open>LoadContainerReader\<close> returns it.
\<close>

theorem C6_unsupported_host_counterexample:
  "take (HdrArchLen (sample_env ''riscv64'') - 1) (Arch (sample_Header ''02''))
      \<noteq> GetSIFArch (sample_env ''riscv64'') (GOARCH (sample_env ''riscv64''))
   \<and> isValidSif (sample_env ''riscv64'')
        ((zero_FileImage (sample_env ''riscv64''))\<lparr>Header := sample_Header ''02''\<rparr>) False
      \<noteq> None
   \<and> error_of (LoadContainerReader (sample_env ''riscv64'')
        (NewReader (sample_image ''02'' (replicate 8 (CHR 0x00)) (replicate 8 (CHR 0x00)))))
      = Return (Some (GoarchNotSupported ''riscv64''))"
  using ReadFull_sample_image [of "''02''" "replicate 8 (CHR 0x00)" "replicate 8 (CHR 0x00)" "[]"]
  by (simp add: isValidSif_def sample_env_def sample_GetSIFArch_def sample_Header_def
      zero_FileImage_def LoadContainerReader_def readHeader_def error_of_def)

text \<open>
  Claim C6, amended. On a supported host, for a buffer whose header decodes with valid
  magic and version and an architecture tag different from the host's, the pair of an
  image tagged 386 on an amd64 host apart (about that pair nothing is said here):
  runnable validation returns the architecture error, validation that is not runnable
  returns nil, and \<^const>\<open>LoadContainerReader\<close> returns the image with that header and a nil
  error, provided the descriptor count of the header is one that \<^verbatim>\<open>make\<close> accepts.
\<close>

theorem C6_arch_mismatch:
  assumes "GetSIFArch E (GOARCH E) \<noteq> HdrArchUnknown E"
    and "ReadFull b (header_size E) = (b', Inr bs)"
    and "Header fimg = decode_header E bs"
    and "take (HdrMagicLen E - 1) (Magic (decode_header E bs)) = HdrMagic E"
    and "take (HdrVersionLen E - 1) (Version (decode_header E bs)) = HdrVersion E"
    and "take (HdrArchLen E - 1) (Arch (decode_header E bs)) \<noteq> GetSIFArch E (GOARCH E)"
    and "\<not> (GetSIFArch E (GOARCH E) = HdrArchAMD64 E
            \<and> take (HdrArchLen E - 1) (Arch (decode_header E bs)) = HdrArch386 E)"
    and "0 \<le> sint (Dtotal (decode_header E bs))"
    and "sint (Dtotal (decode_header E bs)) \<le> int (max_descrs E)"
  shows "isValidSif E fimg True
           = Some (InvalidArch (Arch (decode_header E bs)) (GetSIFArch E (GOARCH E)))
       \<and> isValidSif E fimg False = None
       \<and> (\<exists>fimg'. LoadContainerReader E b = Return (fimg', None)
              \<and> Header fimg' = decode_header E bs)"
proof -
  have "isValidSif E fimg True
           = Some (InvalidArch (Arch (decode_header E bs)) (GetSIFArch E (GOARCH E)))"
    using assms(1,3-6) by (simp add: isValidSif_def Let_def)
  moreover have "isValidSif E fimg False = None"
    using assms(1,3-5) by (simp add: isValidSif_not_runnable_None)
  moreover have "\<exists>fimg'. LoadContainerReader E b = Return (fimg', None)
              \<and> Header fimg' = decode_header E bs"
    by (rule LoadContainerReader_valid [OF assms(2,1,4,5,8,9)])
  ultimately show ?thesis by simp
qed

text \<open>An image tagged amd64 on a 386 host: the host cannot run it.\<close>

theorem C6_arch_mismatch_witness:
  "isValidSif (sample_env ''386'')
       ((zero_FileImage (sample_env ''386''))\<lparr>Header := sample_Header ''02''\<rparr>) True
     = Some (InvalidArch (''02'' @ [CHR 0x00]) ''01'')
   \<and> isValidSif (sample_env ''386'')
       ((zero_FileImage (sample_env ''386''))\<lparr>Header := sample_Header ''02''\<rparr>) False
     = None
   \<and> (\<exists>fimg'. LoadContainerReader (sample_env ''386'')
           (NewReader (sample_image ''02''
              (CHR 0x50 # replicate 7 (CHR 0x00)) (replicate 8 (CHR 0x00))))
         = Return (fimg', None)
       \<and> Header fimg' = sample_Header ''02'')"
  using C6_arch_mismatch [of "sample_env ''386''"
      "NewReader (sample_image ''02'' (CHR 0x50 # replicate 7 (CHR 0x00)) (replicate 8 (CHR 0x00)))"
      "\<lparr>r_s = sample_image ''02'' (CHR 0x50 # replicate 7 (CHR 0x00)) (replicate 8 (CHR 0x00)),
        r_i = 80\<rparr>"
      "sample_image ''02'' (CHR 0x50 # replicate 7 (CHR 0x00)) (replicate 8 (CHR 0x00))"
      "(zero_FileImage (sample_env ''386''))\<lparr>Header := sample_Header ''02''\<rparr>"]
    ReadFull_sample_image [of "''02''" "CHR 0x50 # replicate 7 (CHR 0x00)"
      "replicate 8 (CHR 0x00)" "[]"]
  by (simp add: sample_env_def sample_GetSIFArch_def sample_decode_image sample_Header_def
      le64_def le_nat_zeros)

text \<open>
  A buffer that ends before the descriptor table: when the header is valid, the host is
  supported and the descriptor count is one that \<^verbatim>\<open>make\<close> accepts, the seek or the read of
  \<^const>\<open>readDescriptors\<close> fails, its error is dropped, and the image comes back with the
  header and no descriptor.
\<close>

lemma ReadFull_r_s: "ReadFull r n = (r', x) \<Longrightarrow> r_s r' = r_s r"
  by (auto simp: ReadFull_def Let_def split: if_splits)

lemma ReadFull_short:
  "0 < n \<Longrightarrow> length (r_s r) < r_i r + n \<Longrightarrow> \<exists>r' e. ReadFull r n = (r', Inl e)"
  by (auto simp: ReadFull_def Let_def)

lemma readDescriptors_short:
  assumes "Reader fimg = Some r"
    and "0 \<le> sint (Dtotal (Header fimg))"
    and "sint (Dtotal (Header fimg)) \<le> int (max_descrs E)"
    and "0 < descr_size E"
    and "int (length (r_s r))
           < sint (Descroff (Header fimg)) + int (descr_size E) * sint (Dtotal (Header fimg))"
    and "DescrArr fimg = []"
  shows "\<exists>fimg' err. readDescriptors E fimg = Return (fimg', err)
           \<and> Header fimg' = Header fimg \<and> DescrArr fimg' = []"
proof (cases "sint (Descroff (Header fimg)) < 0")
  case True
  with assms(1,6) show ?thesis
    by (simp add: readDescriptors_def Seek_def)
next
  case False
  let ?r1 = "r\<lparr>r_i := nat (sint (Descroff (Header fimg)))\<rparr>"
  let ?n = "nat (sint (Dtotal (Header fimg)))"
  have seek: "Seek r (sint (Descroff (Header fimg))) = Inr ?r1"
    using False by (simp add: Seek_def)
  show ?thesis
  proof (cases "?n = 0")
    case True
    then have "ReadFull ?r1 (descr_size E * ?n) = (?r1, Inr [])"
      by (simp add: ReadFull_def)
    with assms(1-3) seek True show ?thesis
      by (simp add: readDescriptors_def Let_def)
  next
    case n: False
    have "int (length (r_s ?r1)) < int (r_i ?r1) + int (descr_size E * ?n)"
      using assms(2,5) False by simp
    then have "length (r_s ?r1) < r_i ?r1 + descr_size E * ?n"
      by linarith
    moreover have "0 < descr_size E * ?n"
      using n assms(4) by simp
    ultimately obtain r' e where "ReadFull ?r1 (descr_size E * ?n) = (r', Inl e)"
      using ReadFull_short by blast
    with assms(1-3) seek show ?thesis
      by (simp add: readDescriptors_def Let_def)
  qed
qed

lemma LoadContainerReader_short_buffer:
  assumes "ReadFull b (header_size E) = (b', Inr bs)"
    and "GetSIFArch E (GOARCH E) \<noteq> HdrArchUnknown E"
    and "take (HdrMagicLen E - 1) (Magic (decode_header E bs)) = HdrMagic E"
    and "take (HdrVersionLen E - 1) (Version (decode_header E bs)) = HdrVersion E"
    and "0 \<le> sint (Dtotal (decode_header E bs))"
    and "sint (Dtotal (decode_header E bs)) \<le> int (max_descrs E)"
    and "0 < descr_size E"
    and "int (length (r_s b))
           < sint (Descroff (decode_header E bs))
             + int (descr_size E) * sint (Dtotal (decode_header E bs))"
  shows "\<exists>fimg'. LoadContainerReader E b = Return (fimg', None)
            \<and> Header fimg' = decode_header E bs \<and> DescrArr fimg' = []"
proof -
  let ?f1 = "(zero_FileImage E)\<lparr>Reader := Some b', Header := decode_header E bs\<rparr>"
  have rh: "readHeader E ((zero_FileImage E)\<lparr>Reader := Some b\<rparr>) = Return (?f1, None)"
    using assms(1) by (simp add: readHeader_def)
  have v: "isValidSif E ?f1 False = None"
    using assms(2-4) by (simp add: isValidSif_def Let_def)
  have s: "r_s b' = r_s b"
    using assms(1) by (rule ReadFull_r_s)
  obtain f2 err where rd: "readDescriptors E ?f1 = Return (f2, err)"
    and h: "Header f2 = Header ?f1" and d: "DescrArr f2 = []"
    using readDescriptors_short [of ?f1 b' E] assms(5-8) s
    by (auto simp: zero_FileImage_def)
  show ?thesis
    using rh v rd h d by (simp add: LoadContainerReader_def)
qed

text \<open>
  Claim C5 (a buffer shorter than the descriptor table). A buffer that holds exactly a
  valid header whose descriptor count is \<open>2 ^ 62\<close> is shorter than the descriptor table
  it announces, and \<^const>\<open>LoadContainerReader\<close> panics in \<^verbatim>\<open>make\<close> instead of returning
  the image with an empty descriptor set.
\<close>

theorem C5_huge_Dtotal_panics:
  "LoadContainerReader (sample_env ''amd64'')
     (NewReader (sample_image ''02''
        [CHR 0x50, CHR 0x00, CHR 0x00, CHR 0x00, CHR 0x00, CHR 0x00, CHR 0x00, CHR 0x00]
        [CHR 0x00, CHR 0x00, CHR 0x00, CHR 0x00, CHR 0x00, CHR 0x00, CHR 0x00, CHR 0x40]))
   = Panic MakesliceLenOutOfRange"
  using ReadFull_sample_image [of "''02''"
        "[CHR 0x50, CHR 0x00, CHR 0x00, CHR 0x00, CHR 0x00, CHR 0x00, CHR 0x00, CHR 0x00]"
        "[CHR 0x00, CHR 0x00, CHR 0x00, CHR 0x00, CHR 0x00, CHR 0x00, CHR 0x00, CHR 0x40]" "[]"]
  by (simp add: LoadContainerReader_def readHeader_def readDescriptors_def isValidSif_def
      sample_env_def sample_GetSIFArch_def zero_FileImage_def sample_decode_image Seek_def
      le64_def)

section \<open>Properties of loading from a file and unloading\<close>

text \<open>
  A successful \<^const>\<open>mapFile\<close> leaves a live mapping in \<^verbatim>\<open>Filedata\<close>; the steps after it
  change neither the state of the operating system nor \<^verbatim>\<open>Filedata\<close> and \<^verbatim>\<open>Fp\<close>.
\<close>

lemma Mmap_mapped:
  "Mmap s fp len w = Some (s', d) \<Longrightarrow>
     mapped s' d \<and> fdtab s' = fdtab s \<and> (\<exists>fd. fp = Some fd \<and> fdtab s fd \<noteq> None)"
  by (auto simp: Mmap_def mapped_def split: if_splits option.splits)

lemma mapFile_None:
  assumes "mapFile E s fimg rdonly = (s1, fimg1, None)"
  shows "mapped s1 (Filedata fimg1) \<and> Fp fimg1 = Fp fimg
         \<and> (\<exists>fd. Fp fimg = Some fd \<and> fdtab s1 fd \<noteq> None)"
  using assms
  by (auto simp: mapFile_def Let_def split: option.splits if_splits dest!: Mmap_mapped)

lemma readHeader_keeps:
  "readHeader E fimg = Return (fimg', err) \<Longrightarrow>
     Filedata fimg' = Filedata fimg \<and> Fp fimg' = Fp fimg"
  by (auto simp: readHeader_def split: option.splits prod.splits sum.splits)

lemma readDescriptors_keeps:
  "readDescriptors E fimg = Return (fimg', err) \<Longrightarrow>
     Filedata fimg' = Filedata fimg \<and> Fp fimg' = Fp fimg"
  by (auto simp: readDescriptors_def Let_def split: option.splits prod.splits sum.splits if_splits)

lemma load_mapped_keeps:
  assumes "load_mapped E s fimg = Return (s', fimg', err)"
  shows "s' = s \<and> Filedata fimg' = Filedata fimg \<and> Fp fimg' = Fp fimg"
  using assms
  by (auto simp: load_mapped_def
      split: outcome.splits prod.splits option.splits
      dest!: readHeader_keeps readDescriptors_keeps)

text \<open>
  Claim C2, amended. When \<^const>\<open>LoadContainer\<close> or \<^const>\<open>LoadContainerFp\<close> has established the
  mapping and a later step (header read, header validation, descriptor read) fails, the
  error is returned in the state that \<^const>\<open>mapFile\<close> left: the mapping in \<^verbatim>\<open>Filedata\<close> of the
  returned image is still live and the file is still open. The loader releases nothing;
  the image that comes back with the error holds what \<^const>\<open>UnloadContainer\<close> needs.
\<close>

theorem C2_failed_load_keeps_mapping:
  "(os_Open s filename rdonly = Some (s0, fd)
      \<and> mapFile E s0 ((zero_FileImage E)\<lparr>Fp := Some fd\<rparr>) rdonly = (s1, fimg1, None)
      \<and> LoadContainer E s filename rdonly = Return (s', fimg', Some e)
    \<longrightarrow> s' = s1 \<and> Filedata fimg' = Filedata fimg1 \<and> mapped s' (Filedata fimg')
        \<and> Fp fimg' = Some fd \<and> fdtab s' fd \<noteq> None)
   \<and> (mapFile E s ((zero_FileImage E)\<lparr>Fp := Some fd\<rparr>) rdonly = (s1, fimg1, None)
      \<and> LoadContainerFp E s (Some fd) rdonly = Return (s', fimg', Some e)
    \<longrightarrow> s' = s1 \<and> Filedata fimg' = Filedata fimg1 \<and> mapped s' (Filedata fimg')
        \<and> Fp fimg' = Some fd \<and> fdtab s' fd \<noteq> None)"
proof (intro conjI impI)
  assume a: "os_Open s filename rdonly = Some (s0, fd)
      \<and> mapFile E s0 ((zero_FileImage E)\<lparr>Fp := Some fd\<rparr>) rdonly = (s1, fimg1, None)
      \<and> LoadContainer E s filename rdonly = Return (s', fimg', Some e)"
  then have l: "load_mapped E s1 fimg1 = Return (s', fimg', Some e)"
    by (clarsimp simp: LoadContainer_def)
  from a have m: "mapped s1 (Filedata fimg1) \<and> Fp fimg1 = Some fd \<and> fdtab s1 fd \<noteq> None"
    using mapFile_None [of E s0 "(zero_FileImage E)\<lparr>Fp := Some fd\<rparr>" rdonly s1 fimg1] by auto
  from load_mapped_keeps [OF l] m
  show "s' = s1" "Filedata fimg' = Filedata fimg1" "mapped s' (Filedata fimg')"
    "Fp fimg' = Some fd" "fdtab s' fd \<noteq> None"
    by simp_all
next
  assume a: "mapFile E s ((zero_FileImage E)\<lparr>Fp := Some fd\<rparr>) rdonly = (s1, fimg1, None)
      \<and> LoadContainerFp E s (Some fd) rdonly = Return (s', fimg', Some e)"
  then have l: "load_mapped E s1 fimg1 = Return (s', fimg', Some e)"
    by (clarsimp simp: LoadContainerFp_def)
  from a have m: "mapped s1 (Filedata fimg1) \<and> Fp fimg1 = Some fd \<and> fdtab s1 fd \<noteq> None"
    using mapFile_None [of E s "(zero_FileImage E)\<lparr>Fp := Some fd\<rparr>" rdonly s1 fimg1] by auto
  from load_mapped_keeps [OF l] m
  show "s' = s1" "Filedata fimg' = Filedata fimg1" "mapped s' (Filedata fimg')"
    "Fp fimg' = Some fd" "fdtab s' fd \<noteq> None"
    by simp_all
qed

text \<open>Evaluation of the loaders on the sample file system.\<close>

lemma nextAligned_80: "nextAligned 80 4096 = 4096"
  by (simp add: nextAligned_def)

lemma to_int_4096: "signed_take_bit 63 (4096::int) = 4096"
  by (simp add: signed_take_bit_int_eq_self_iff)

lemma length_sample_image:
  "length arch = 2 \<Longrightarrow> length off = 8 \<Longrightarrow> length tot = 8 \<Longrightarrow>
   length (sample_image arch off tot) = 80"
  by (simp add: sample_image_def)

lemma os_Open_sample:
  "os_Open (sample_os file) ''image.sif'' True =
     Some ((sample_os file)\<lparr>fdtab := [3 \<mapsto> \<lparr>f_data = file, f_rdonly = True\<rparr>], next_fd := 4\<rparr>, 3)"
  by (simp add: os_Open_def sample_os_def)

lemma mapFile_sample:
  "length file = 80 \<Longrightarrow>
   mapFile (sample_env ''amd64'')
     ((sample_os file)\<lparr>fdtab := [3 \<mapsto> \<lparr>f_data = file, f_rdonly = True\<rparr>], next_fd := 4\<rparr>)
     ((zero_FileImage (sample_env ''amd64''))\<lparr>Fp := Some 3\<rparr>) True =
   ((sample_os file)\<lparr>fdtab := [3 \<mapsto> \<lparr>f_data = file, f_rdonly = True\<rparr>], next_fd := 4,
       active := [4096 \<mapsto> 4096], next_addr := 8192\<rparr>,
    (zero_FileImage (sample_env ''amd64''))\<lparr>Fp := Some 3, Filesize := 80,
       Filedata := \<lparr>base = 4096, mdata = file @ replicate 4016 (CHR 0x00)\<rparr>,
       Reader := Some \<lparr>r_s = file @ replicate 4016 (CHR 0x00), r_i = 0\<rparr>\<rparr>,
    None)"
  by (simp add: mapFile_def Stat_Size_def sample_os_def sample_env_def nextAligned_80
      to_int_def to_int_4096 Mmap_def zero_FileImage_def NewReader_def)

lemma load_mapped_sample:
  assumes "length arch = 2" "length off = 8" "length tot = 8"
    and "Reader fimg = Some \<lparr>r_s = sample_image arch off tot @ rest, r_i = 0\<rparr>"
    and "arch \<noteq> ''02''"
  shows "load_mapped (sample_env ''amd64'') s fimg =
     Return (s, fimg\<lparr>Reader := Some \<lparr>r_s = sample_image arch off tot @ rest, r_i = 80\<rparr>,
                     Header := sample_decode_header (sample_image arch off tot)\<rparr>,
             Some (InvalidArch (arch @ [CHR 0x00]) ''02''))"
  using assms ReadFull_sample_image [of arch off tot rest]
  by (simp add: load_mapped_def readHeader_def isValidSif_def sample_env_def
      sample_GetSIFArch_def sample_decode_image NewReader_def)

theorem C2_failed_load_keeps_mapping_witness:
  "(\<exists>s' fimg' e.
      LoadContainer (sample_env ''amd64'')
        (sample_os (sample_image ''03'' (CHR 0x50 # replicate 7 (CHR 0x00)) (replicate 8 (CHR 0x00))))
        ''image.sif'' True = Return (s', fimg', Some e)
      \<and> mapped s' (Filedata fimg') \<and> Fp fimg' = Some 3 \<and> fdtab s' 3 \<noteq> None)
   \<and> (\<exists>s' fimg' e.
      LoadContainerFp (sample_env ''amd64'')
        ((sample_os (sample_image ''03'' (CHR 0x50 # replicate 7 (CHR 0x00)) (replicate 8 (CHR 0x00))))
           \<lparr>fdtab := [3 \<mapsto> \<lparr>f_data = sample_image ''03'' (CHR 0x50 # replicate 7 (CHR 0x00))
                                      (replicate 8 (CHR 0x00)),
                               f_rdonly = True\<rparr>],
            next_fd := 4\<rparr>)
        (Some 3) True = Return (s', fimg', Some e)
      \<and> mapped s' (Filedata fimg') \<and> Fp fimg' = Some 3 \<and> fdtab s' 3 \<noteq> None)"
proof -
  let ?E = "sample_env ''amd64''"
  let ?img = "sample_image ''03'' (CHR 0x50 # replicate 7 (CHR 0x00)) (replicate 8 (CHR 0x00))"
  let ?S = "sample_os ?img"
  let ?Sa = "?S\<lparr>fdtab := [3 \<mapsto> \<lparr>f_data = ?img, f_rdonly = True\<rparr>], next_fd := 4\<rparr>"
  let ?Sb = "?S\<lparr>fdtab := [3 \<mapsto> \<lparr>f_data = ?img, f_rdonly = True\<rparr>], next_fd := 4,
       active := [4096 \<mapsto> 4096], next_addr := 8192\<rparr>"
  let ?Fa = "(zero_FileImage ?E)\<lparr>Fp := Some 3, Filesize := 80,
       Filedata := \<lparr>base = 4096, mdata = ?img @ replicate 4016 (CHR 0x00)\<rparr>,
       Reader := Some \<lparr>r_s = ?img @ replicate 4016 (CHR 0x00), r_i = 0\<rparr>\<rparr>"
  let ?Fb = "?Fa\<lparr>Reader := Some \<lparr>r_s = ?img @ replicate 4016 (CHR 0x00), r_i = 80\<rparr>,
                  Header := sample_decode_header ?img\<rparr>"
  let ?e = "InvalidArch (''03'' @ [CHR 0x00]) ''02''"
  have len: "length ?img = 80"
    by (simp add: length_sample_image)
  have o: "os_Open ?S ''image.sif'' True = Some (?Sa, 3)"
    by (rule os_Open_sample)
  have m: "mapFile ?E ?Sa ((zero_FileImage ?E)\<lparr>Fp := Some 3\<rparr>) True = (?Sb, ?Fa, None)"
    by (rule mapFile_sample [OF len])
  have l: "load_mapped ?E ?Sb ?Fa = Return (?Sb, ?Fb, Some ?e)"
    by (rule load_mapped_sample) simp_all
  have c: "LoadContainer ?E ?S ''image.sif'' True = Return (?Sb, ?Fb, Some ?e)"
    by (simp add: LoadContainer_def o m l)
  have cfp: "LoadContainerFp ?E ?Sa (Some 3) True = Return (?Sb, ?Fb, Some ?e)"
    by (simp add: LoadContainerFp_def m l)
  from C2_failed_load_keeps_mapping [of ?S "''image.sif''" True ?Sa 3 ?E ?Sb ?Fa ?Sb ?Fb ?e]
    o m c cfp
  show ?thesis by blast
qed

text \<open>
  Claim C2, as stated, fails: loading a file whose magic is corrupted returns the error
  while the mapping is still live.
\<close>

theorem C2_corrupted_magic_counterexample:
  "returns_error_with_live_mapping
     (LoadContainer (sample_env ''amd64'')
        (sample_os ((sample_image ''02'' (CHR 0x50 # replicate 7 (CHR 0x00))
                       (replicate 8 (CHR 0x00)))[0 := CHR ''X'']))
        ''image.sif'' True)"
proof -
  let ?E = "sample_env ''amd64''"
  let ?img = "(sample_image ''02'' (CHR 0x50 # replicate 7 (CHR 0x00))
                       (replicate 8 (CHR 0x00)))[0 := CHR ''X'']"
  let ?Sb = "(sample_os ?img)\<lparr>fdtab := [3 \<mapsto> \<lparr>f_data = ?img, f_rdonly = True\<rparr>], next_fd := 4,
       active := [4096 \<mapsto> 4096], next_addr := 8192\<rparr>"
  let ?Fa = "(zero_FileImage ?E)\<lparr>Fp := Some 3, Filesize := 80,
       Filedata := \<lparr>base = 4096, mdata = ?img @ replicate 4016 (CHR 0x00)\<rparr>,
       Reader := Some \<lparr>r_s = ?img @ replicate 4016 (CHR 0x00), r_i = 0\<rparr>\<rparr>"
  let ?Fb = "?Fa\<lparr>Reader := Some \<lparr>r_s = ?img @ replicate 4016 (CHR 0x00), r_i = 80\<rparr>,
                  Header := sample_decode_header ?img\<rparr>"
  have len: "length ?img = 80"
    by (simp add: length_sample_image)
  have rd: "ReadFull \<lparr>r_s = ?img @ replicate 4016 (CHR 0x00), r_i = 0\<rparr> 80
      = (\<lparr>r_s = ?img @ replicate 4016 (CHR 0x00), r_i = 80\<rparr>, Inr ?img)"
    using len by (simp add: ReadFull_def)
  have mg: "Magic (sample_decode_header ?img) = ''XIF_MAGIC'' @ [CHR 0x00]"
    by (simp add: sample_decode_header_def sample_image_def)
  have l: "load_mapped ?E ?Sb ?Fa
      = Return (?Sb, ?Fb, Some (InvalidMagic (''XIF_MAGIC'' @ [CHR 0x00])))"
    using rd mg
    by (simp add: load_mapped_def readHeader_def isValidSif_def sample_env_def
        sample_GetSIFArch_def)
  have c: "LoadContainer ?E (sample_os ?img) ''image.sif'' True
      = Return (?Sb, ?Fb, Some (InvalidMagic (''XIF_MAGIC'' @ [CHR 0x00])))"
    by (simp add: LoadContainer_def os_Open_sample mapFile_sample [OF len] l)
  show ?thesis
    using len by (simp add: c returns_error_with_live_mapping_def mapped_def)
qed

text \<open>
  Claim C7. Every operation of \<^const>\<open>UnloadContainer\<close> reports failure by a returned error
  (\<^verbatim>\<open>EINVAL\<close> from \<^verbatim>\<open>Munmap\<close> for a slice that is not a live mapping, an error from
  \<^verbatim>\<open>Close\<close> on a closed file), so a call always returns. A second call on the same image,
  in the state the first call left, changes nothing: it returns the unmapping error when
  the image is backed by a file, and nil when it is not.
\<close>

theorem C7_second_unload:
  "UnloadContainer s fimg = (s1, e1) \<Longrightarrow>
     UnloadContainer s1 fimg = (s1, if Fp fimg = None then None else Some MunmapError)"
  by (auto simp: UnloadContainer_def unmapFile_def Munmap_def Close_def
      split: option.splits if_splits prod.splits)


theorem C7_second_unload_witness:
  "UnloadContainer
     \<lparr>fs = Map.empty, fdtab = [3 \<mapsto> \<lparr>f_data = ''data'', f_rdonly = True\<rparr>], next_fd = 4,
      active = [4096 \<mapsto> 4], next_addr = 8192\<rparr>
     ((zero_FileImage (sample_env ''amd64''))
        \<lparr>Fp := Some 3, Filedata := \<lparr>base = 4096, mdata = ''data''\<rparr>\<rparr>)
   = (\<lparr>fs = Map.empty, fdtab = Map.empty, next_fd = 4, active = Map.empty, next_addr = 8192\<rparr>,
      None)
   \<and> UnloadContainer
     \<lparr>fs = Map.empty, fdtab = Map.empty, next_fd = 4, active = Map.empty, next_addr = 8192\<rparr>
     ((zero_FileImage (sample_env ''amd64''))
        \<lparr>Fp := Some 3, Filedata := \<lparr>base = 4096, mdata = ''data''\<rparr>\<rparr>)
   = (\<lparr>fs = Map.empty, fdtab = Map.empty, next_fd = 4, active = Map.empty, next_addr = 8192\<rparr>,
      Some MunmapError)"
proof -
  have first: "UnloadContainer
     \<lparr>fs = Map.empty, fdtab = [3 \<mapsto> \<lparr>f_data = ''data'', f_rdonly = True\<rparr>], next_fd = 4,
      active = [4096 \<mapsto> 4], next_addr = 8192\<rparr>
     ((zero_FileImage (sample_env ''amd64''))
        \<lparr>Fp := Some 3, Filedata := \<lparr>base = 4096, mdata = ''data''\<rparr>\<rparr>)
   = (\<lparr>fs = Map.empty, fdtab = Map.empty, next_fd = 4, active = Map.empty, next_addr = 8192\<rparr>,
      None)"
    by (simp add: UnloadContainer_def unmapFile_def Munmap_def Close_def zero_FileImage_def)
  from first C7_second_unload [OF first] show ?thesis
    by (simp add: zero_FileImage_def)
qed

section \<open>Properties of the integrity engine\<close>











text \<open>The serialization of \<^verbatim>\<open>testType{1, 2}\<close> is the text that the test's corrupter matches.\<close>

lemma encode_testType_1_2:
  "encode_testType \<lparr>One = 1, Two = 2\<rparr>
     = [CHR ''{'', CHR 0x22] @ ''One'' @ [CHR 0x22, CHR '':'', CHR ''1'', CHR '','', CHR 0x22]
         @ ''Two'' @ [CHR 0x22, CHR '':'', CHR ''2'', CHR ''}'']"
  by code_simp


text \<open>An entity of the keyring is found by its key id.\<close>

lemma find_Entity:
  assumes "(e::Entity) \<in> set el" "PrimaryKey e = k"
  shows "find (\<lambda>x. PrimaryKey x = k) el = Some e"
proof -
  obtain x where x: "find (\<lambda>x. PrimaryKey x = k) el = Some x"
    using assms by (cases "find (\<lambda>x. PrimaryKey x = k) el") (auto simp: find_None_iff)
  then have "PrimaryKey x = k"
    by (auto simp: find_Some_iff)
  with assms(2) have "x = e"
    by (cases x, cases e) simp
  with x show ?thesis by simp
qed




text \<open>
  Claim C4, as stated, fails when the keyring does not hold the signer's key: the payload
  of a signed envelope is replaced by that of another value, as the corrupter of the test
  does, and verification against the empty keyring fails with \<open>UnknownIssuerError\<close>.
\<close>

theorem C4_empty_keyring_counterexample:
  "signAndEncodeJSON sample_lib \<lparr>One = 1, Two = 2\<rparr> sample_key \<lparr>DefaultHash = None\<rparr>
     = Inr \<lparr>block = sample_envelope, trailing = []\<rparr>
   \<and> encode_testType \<lparr>One = 2, Two = 4\<rparr> \<noteq> Plaintext sample_envelope
   \<and> verifyAndDecodeJSON sample_lib
        \<lparr>block = sample_envelope\<lparr>Plaintext := encode_testType \<lparr>One = 2, Two = 4\<rparr>\<rparr>,
         trailing = []\<rparr> []
     = Inl UnknownIssuerError
   \<and> UnknownIssuerError \<noteq> SignatureError"
proof -
  have "encode_testType \<lparr>One = 2, Two = 4\<rparr> \<noteq> encode_testType \<lparr>One = 1, Two = 2\<rparr>"
    by code_simp
  then show ?thesis
    by (simp add: signAndEncodeJSON_def verifyAndDecodeJSON_def sample_lib_def sample_key_def
        sample_envelope_def Let_def)
qed

text \<open>
  Claim C4, amended. For every envelope that signing produced and every payload \<open>p\<close>
  different from the signed one (a change of a single byte in particular), verification
  against a keyring that contains the signer's key fails with \<open>SignatureError\<close>; against a
  keyring that holds no key with the signer's key id it fails with \<open>UnknownIssuerError\<close>;
  against every keyring it returns an error, never a decoded value.
\<close>

theorem C4_tampered_payload:
  assumes "signAndEncodeJSON L v k config = Inr data"
    and "p \<noteq> Plaintext (block data)"
    and "e \<in> set el"
    and "PrimaryKey e = KeyId k"
  shows "verifyAndDecodeJSON L \<lparr>block = (block data)\<lparr>Plaintext := p\<rparr>, trailing = r\<rparr> el
           = Inl SignatureError
       \<and> (\<forall>el'. (\<forall>x \<in> set el'. PrimaryKey x \<noteq> KeyId k) \<longrightarrow>
              verifyAndDecodeJSON L \<lparr>block = (block data)\<lparr>Plaintext := p\<rparr>, trailing = r\<rparr> el'
                = Inl UnknownIssuerError)
       \<and> (\<forall>el'. isl (verifyAndDecodeJSON L
                          \<lparr>block = (block data)\<lparr>Plaintext := p\<rparr>, trailing = r\<rparr> el'))"
proof -
  from assms(1) have env: "block data = \<lparr>Plaintext = encode L v,
      ArmoredSignature = \<lparr>Hash = (case DefaultHash config of None \<Rightarrow> library_default L | Some h \<Rightarrow> h),
        IssuerKeyId = KeyId k,
        Value = Signed (KeyId k)
          (Digest (case DefaultHash config of None \<Rightarrow> library_default L | Some h \<Rightarrow> h)
             (encode L v))\<rparr>\<rparr>"
    by (auto simp: signAndEncodeJSON_def Let_def split: if_splits)
  have "verifyAndDecodeJSON L \<lparr>block = (block data)\<lparr>Plaintext := p\<rparr>, trailing = r\<rparr> el
           = Inl SignatureError"
    using assms(2-4) find_Entity [of e el "KeyId k"]
    by (simp add: env verifyAndDecodeJSON_def Let_def)
  moreover have "verifyAndDecodeJSON L \<lparr>block = (block data)\<lparr>Plaintext := p\<rparr>, trailing = r\<rparr> el'
           = Inl UnknownIssuerError"
    if "\<forall>x \<in> set el'. PrimaryKey x \<noteq> KeyId k" for el'
  proof -
    from that have "find (\<lambda>x. PrimaryKey x = KeyId k) el' = None"
      by (simp add: find_None_iff)
    then show ?thesis
      by (simp add: env verifyAndDecodeJSON_def Let_def)
  qed
  moreover have "isl (verifyAndDecodeJSON L
      \<lparr>block = (block data)\<lparr>Plaintext := p\<rparr>, trailing = r\<rparr> el')"
    for el'
    using assms(2)
    by (auto simp: env verifyAndDecodeJSON_def Let_def split: option.splits)
  ultimately show ?thesis by simp
qed

theorem C4_tampered_payload_witness:
  "verifyAndDecodeJSON sample_lib
        \<lparr>block = sample_envelope\<lparr>Plaintext := encode_testType \<lparr>One = 2, Two = 4\<rparr>\<rparr>,
         trailing = []\<rparr> [sample_entity]
     = Inl SignatureError
   \<and> verifyAndDecodeJSON sample_lib
        \<lparr>block = sample_envelope\<lparr>Plaintext := encode_testType \<lparr>One = 2, Two = 4\<rparr>\<rparr>,
         trailing = []\<rparr> [\<lparr>PrimaryKey = 3\<rparr>]
     = Inl UnknownIssuerError"
proof -
  have s: "signAndEncodeJSON sample_lib \<lparr>One = 1, Two = 2\<rparr> sample_key \<lparr>DefaultHash = None\<rparr>
     = Inr \<lparr>block = sample_envelope, trailing = []\<rparr>"
    by (simp add: signAndEncodeJSON_def sample_lib_def sample_key_def sample_envelope_def Let_def)
  have n: "encode_testType \<lparr>One = 2, Two = 4\<rparr>
             \<noteq> Plaintext (block \<lparr>block = sample_envelope, trailing = []\<rparr>)"
    unfolding sample_envelope_def by code_simp
  have k: "PrimaryKey sample_entity = KeyId sample_key"
    by (simp add: sample_entity_def sample_key_def)
  have m: "sample_entity \<in> set [sample_entity]"
    by simp
  have u: "\<forall>x \<in> set [\<lparr>PrimaryKey = 3\<rparr>]. PrimaryKey x \<noteq> KeyId sample_key"
    by (simp add: sample_key_def)
  from C4_tampered_payload [OF s n m k, of "[]"] u
  show ?thesis by simp
qed

text \<open>
  Claim C8. With an empty keyring, verification fails with \<open>UnknownIssuerError\<close> for
  every input: whatever the payload, the signature and the trailing bytes are.
\<close>

theorem C8_empty_keyring:
  "verifyAndDecodeJSON L data [] = Inl UnknownIssuerError"
  by (simp add: verifyAndDecodeJSON_def Let_def)

text \<open>
  Claim C9. With a private key that is still encrypted, signing fails with \<open>KeyError\<close>
  for every value and every hash configuration; no envelope is produced.
\<close>

theorem C9_encrypted_key:
  "Encrypted k \<Longrightarrow> signAndEncodeJSON L v k config = Inl KeyError"
  by (simp add: signAndEncodeJSON_def)

theorem C9_encrypted_key_witness:
  "Encrypted sample_encrypted_key
   \<and> signAndEncodeJSON sample_lib \<lparr>One = 1, Two = 2\<rparr> sample_encrypted_key
        \<lparr>DefaultHash = Some SHA1\<rparr> = Inl KeyError"
proof -
  have h: "Encrypted sample_encrypted_key"
    by (simp add: sample_encrypted_key_def)
  from h C9_encrypted_key [OF h, of sample_lib "\<lparr>One = 1, Two = 2\<rparr>" "\<lparr>DefaultHash = Some SHA1\<rparr>"]
  show ?thesis by simp
qed

end
